theory Spec2Isabelle
  imports Complex_Main "HOL-Library.AList" "HOL-Library.Char_ord" "HOL-Library.List_Lexorder"
begin

section \<open>Python values, exceptions and the built-ins the handlers use\<close>

text \<open>
  The handlers of \<^verbatim>\<open>app.py\<close> work on decoded JSON and BSON documents. A value is one
  of the JSON shapes, or an opaque object (an ObjectId, a datetime) that is truthy,
  hashable, not a number and not subscriptable.

  Numbers: a Python \<^verbatim>\<open>float\<close> is modelled by an exact rational, and an \<^verbatim>\<open>int\<close>
  converts to it exactly. The binary rounding of float arithmetic, its range
  (\<^verbatim>\<open>inf\<close>, \<^verbatim>\<open>nan\<close>, the OverflowError of \<^verbatim>\<open>float\<close> on an int beyond the double
  range) are outside this model.
\<close>

datatype pyval =
    PNone
  | PBool bool
  | PInt int
  | PFloat rat
  | PStr string
  | PList "pyval list"
  | PDict "(string \<times> pyval) list"
  | PObj string

datatype error = ValueError | TypeError | AttributeError | KeyError | IndexError | DatabaseError

type_synonym 'a result = "error + 'a"

definition bindE :: "'a result \<Rightarrow> ('a \<Rightarrow> 'b result) \<Rightarrow> 'b result" where
  "bindE m f = (case m of Inl e \<Rightarrow> Inl e | Inr x \<Rightarrow> f x)"

text \<open>\<^verbatim>\<open>bool(v)\<close>, as \<^verbatim>\<open>if v\<close> and \<^verbatim>\<open>not v\<close> use it.\<close>

fun truthy :: "pyval \<Rightarrow> bool" where
  "truthy PNone = False"
| "truthy (PBool b) = b"
| "truthy (PInt n) = (n \<noteq> 0)"
| "truthy (PFloat r) = (r \<noteq> 0)"
| "truthy (PStr s) = (s \<noteq> [])"
| "truthy (PList xs) = (xs \<noteq> [])"
| "truthy (PDict d) = (d \<noteq> [])"
| "truthy (PObj s) = True"

text \<open>
  \<^verbatim>\<open>float(v)\<close>. The parser of \<^verbatim>\<open>float\<close> on a string is Python's own: it is the
  parameter \<open>pf\<close>, \<open>None\<close> where Python raises ValueError.
\<close>

type_synonym str_parser = "string \<Rightarrow> rat option"

fun py_float :: "str_parser \<Rightarrow> pyval \<Rightarrow> rat result" where
  "py_float pf PNone = Inl TypeError"
| "py_float pf (PBool b) = Inr (if b then 1 else 0)"
| "py_float pf (PInt n) = Inr (of_int n)"
| "py_float pf (PFloat r) = Inr r"
| "py_float pf (PStr s) = (case pf s of None \<Rightarrow> Inl ValueError | Some r \<Rightarrow> Inr r)"
| "py_float pf (PList xs) = Inl TypeError"
| "py_float pf (PDict d) = Inl TypeError"
| "py_float pf (PObj s) = Inl TypeError"

text \<open>\<^verbatim>\<open>v.get(k, default)\<close>: only a dict has the method.\<close>

fun py_get :: "pyval \<Rightarrow> string \<Rightarrow> pyval \<Rightarrow> pyval result" where
  "py_get (PDict d) k dflt = Inr (case map_of d k of None \<Rightarrow> dflt | Some v \<Rightarrow> v)"
| "py_get v k dflt = Inl AttributeError"

text \<open>
  \<^verbatim>\<open>round(x, 2)\<close> rounds the value of \<open>x\<close> to the nearest multiple of 1/100, a tie to
  the even one.
\<close>

definition round_half_even :: "rat \<Rightarrow> int" where
  "round_half_even y =
     (let f = \<lfloor>y\<rfloor>; d = y - of_int f
      in if d < 1 / 2 then f else if 1 / 2 < d then f + 1
         else if even f then f else f + 1)"

definition round2 :: "rat \<Rightarrow> rat" where
  "round2 x = of_int (round_half_even (x * 100)) / 100"

section \<open>The totals engine: \<^verbatim>\<open>calculate_invoice_total\<close>\<close>

text \<open>The three conversions at the head of the loop body, in the source's order.\<close>

definition item_fields :: "str_parser \<Rightarrow> pyval \<Rightarrow> (rat \<times> rat \<times> rat) result" where
  "item_fields pf item =
     bindE (bindE (py_get item ''quantity'' (PInt 0)) (py_float pf)) (\<lambda>quantity.
     bindE (bindE (py_get item ''unit_price'' (PInt 0)) (py_float pf)) (\<lambda>unit_price.
     bindE (bindE (py_get item ''tax'' (PInt 0)) (py_float pf)) (\<lambda>tax_rate.
     Inr (quantity, unit_price, tax_rate))))"

text \<open>
  The loop over the items, with the accumulators \<open>(subtotal, total_tax)\<close>. The handler
  of the body is \<^verbatim>\<open>except (ValueError, TypeError): continue\<close>; any other exception
  leaves the function.
\<close>

fun total_loop :: "str_parser \<Rightarrow> pyval list \<Rightarrow> rat \<times> rat \<Rightarrow> (rat \<times> rat) result" where
  "total_loop pf [] acc = Inr acc"
| "total_loop pf (item # rest) (subtotal, total_tax) =
     (case item_fields pf item of
        Inl e \<Rightarrow>
          if e = ValueError \<or> e = TypeError then total_loop pf rest (subtotal, total_tax)
          else Inl e
      | Inr (quantity, unit_price, tax_rate) \<Rightarrow>
          (let item_subtotal = quantity * unit_price;
               item_tax = (item_subtotal * tax_rate) / 100
           in total_loop pf rest (subtotal + item_subtotal, total_tax + item_tax)))"

fun is_list :: "pyval \<Rightarrow> bool" where
  "is_list (PList xs) = True"
| "is_list v = False"

fun the_list :: "pyval \<Rightarrow> pyval list" where
  "the_list (PList xs) = xs"
| "the_list v = []"

definition calculate_invoice_total :: "str_parser \<Rightarrow> pyval \<Rightarrow> pyval \<Rightarrow> rat result" where
  "calculate_invoice_total pf items gst_rate =
     (if \<not> truthy items \<or> \<not> is_list items then Inr 0
      else
        bindE (total_loop pf (the_list items) (0, 0)) (\<lambda>(subtotal, total_tax).
        bindE (py_float pf gst_rate) (\<lambda>g.
        (let gst_amount = (subtotal * g) / 100
         in Inr (round2 (subtotal + total_tax + gst_amount))))))"

section \<open>The environment of the handlers\<close>

text \<open>
  What the handlers take from Python, the database driver and the clock, and what of
  this repository the properties below do not depend on:
  \<^item> \<open>str_float\<close>: \<^verbatim>\<open>float\<close> on a string, \<open>None\<close> for ValueError;
  \<^item> \<open>str_int\<close>: \<^verbatim>\<open>int\<close> on a string, \<open>None\<close> for ValueError;
  \<^item> \<open>oid_is_valid\<close>: \<^verbatim>\<open>ObjectId.is_valid\<close>;
  \<^item> \<open>db_matches\<close>: whether a document matches a query filter;
  \<^item> \<open>db_new_id\<close>: the \<^verbatim>\<open>_id\<close> that \<^verbatim>\<open>insert_one\<close> assigns, or the error it raises
    (the unique index on \<^verbatim>\<open>invoice_number\<close>, the connection);
  \<^item> \<open>gen_number\<close>: \<^verbatim>\<open>generate_invoice_number\<close> on the current collection;
  \<^item> \<open>month_label\<close>: \<^verbatim>\<open>strptime(month + "-01", "%Y-%m-%d").strftime("%B %Y")\<close>,
    \<open>None\<close> for ValueError;
  \<^item> \<open>py_str\<close>: \<^verbatim>\<open>str\<close> as an f-string applies it;
  \<^item> \<open>dict_slice_error\<close>: the exception of \<^verbatim>\<open>d[:7]\<close> on a dict (TypeError up to
    Python 3.11, KeyError since 3.12, where a slice is hashable).
\<close>

record env =
  str_float :: str_parser
  str_int :: "string \<Rightarrow> int option"
  oid_is_valid :: "string \<Rightarrow> bool"
  db_matches :: "pyval \<Rightarrow> pyval \<Rightarrow> bool"
  db_new_id :: "pyval list \<Rightarrow> pyval \<Rightarrow> string result"
  gen_number :: "pyval list \<Rightarrow> string result"
  month_label :: "string \<Rightarrow> string option"
  py_str :: "pyval \<Rightarrow> string"
  dict_slice_error :: error

text \<open>An HTTP response: the status code and the JSON body.\<close>

datatype response = Response nat pyval

fun code :: "response \<Rightarrow> nat" where
  "code (Response c b) = c"

definition error_body :: "string \<Rightarrow> pyval" where
  "error_body msg = PDict [(''error'', PStr msg)]"

text \<open>\<^verbatim>\<open>d[k] = v\<close> on a dict, and the \<^verbatim>\<open>$set\<close> of an update on a document.\<close>

fun set_item :: "string \<Rightarrow> pyval \<Rightarrow> pyval \<Rightarrow> pyval" where
  "set_item k v (PDict d) = PDict (AList.update k v d)"
| "set_item k v doc = doc"

fun set_fields :: "(string \<times> pyval) list \<Rightarrow> pyval \<Rightarrow> pyval" where
  "set_fields [] doc = doc"
| "set_fields ((k, v) # kvs) doc = set_fields kvs (set_item k v doc)"

text \<open>\<^verbatim>\<open>find_one(filter)\<close> and \<^verbatim>\<open>update_one(filter, {'$set': fields})\<close> on a collection,
  a list of documents; the update returns \<^verbatim>\<open>matched_count\<close> and \<^verbatim>\<open>modified_count\<close>.\<close>

definition find_one :: "env \<Rightarrow> pyval list \<Rightarrow> pyval \<Rightarrow> pyval option" where
  "find_one E coll flt = find (db_matches E flt) coll"

fun update_one :: "env \<Rightarrow> pyval list \<Rightarrow> pyval \<Rightarrow> (string \<times> pyval) list
    \<Rightarrow> (nat \<times> nat) \<times> pyval list" where
  "update_one E [] flt upd = ((0, 0), [])"
| "update_one E (doc # coll) flt upd =
     (if db_matches E flt doc
      then ((1, if set_fields upd doc = doc then 0 else 1), set_fields upd doc # coll)
      else (case update_one E coll flt upd of (n, coll') \<Rightarrow> (n, doc # coll')))"

text \<open>The lookup at the head of the invoice handlers: the query filter for the id of
  the URL, or the ValueError of \<^verbatim>\<open>int(invoice_id)\<close>, raised again in the handler of
  the first one.\<close>

definition invoice_filter :: "env \<Rightarrow> string \<Rightarrow> pyval result" where
  "invoice_filter E invoice_id =
     (if oid_is_valid E invoice_id then Inr (PDict [(''_id'', PObj invoice_id)])
      else (case str_int E invoice_id of
              None \<Rightarrow> Inl ValueError
            | Some n \<Rightarrow> Inr (PDict [(''id'', PInt n)])))"

section \<open>The payment action: \<^verbatim>\<open>pay_invoice\<close>\<close>

definition payment_status :: "rat \<Rightarrow> rat \<Rightarrow> string" where
  "payment_status new_paid total' =
     (if new_paid \<ge> total' then ''paid''
      else if new_paid > 0 then ''partial''
      else ''unpaid'')"

text \<open>
  From the conversion of the amount to the fields of the \<^verbatim>\<open>$set\<close>, on the invoice
  found: a response where the handler returns early or an exception reaches the outer
  \<^verbatim>\<open>except Exception\<close>, otherwise the fields to store.
\<close>

definition payment_update :: "str_parser \<Rightarrow> pyval \<Rightarrow> pyval \<Rightarrow> pyval
    \<Rightarrow> response + (string \<times> pyval) list" where
  "payment_update pf now invoice req =
     (case bindE (py_get req ''amount'' (PInt 0)) (py_float pf) of
        Inl e \<Rightarrow>
          if e = ValueError \<or> e = TypeError
          then Inl (Response 400 (error_body ''Invalid payment amount''))
          else Inl (Response 500 (error_body ''Failed to record payment''))
      | Inr payment \<Rightarrow>
          if payment \<le> 0
          then Inl (Response 400 (error_body ''Payment amount must be positive''))
          else
            (case bindE (bindE (py_get invoice ''amount_paid'' (PInt 0)) (py_float pf))
                    (\<lambda>current_paid.
                  bindE (bindE (py_get invoice ''total'' (PInt 0)) (py_float pf))
                    (\<lambda>total'. Inr (current_paid, total'))) of
               Inl e \<Rightarrow> Inl (Response 500 (error_body ''Failed to record payment''))
             | Inr (current_paid, total') \<Rightarrow>
                 (let new_paid = current_paid + payment;
                      status = payment_status new_paid total'
                  in Inr [(''amount_paid'', PFloat (round2 new_paid)),
                          (''status'', PStr status),
                          (''updated_at'', now)])))"


text \<open>The handler: the response and the collection it leaves.\<close>

definition pay_invoice :: "env \<Rightarrow> pyval \<Rightarrow> pyval list \<Rightarrow> string \<Rightarrow> pyval
    \<Rightarrow> response \<times> pyval list" where
  "pay_invoice E now coll invoice_id req =
     (if \<not> truthy req then (Response 400 (error_body ''No payment data provided''), coll)
      else
        (case invoice_filter E invoice_id of
           Inl e \<Rightarrow> (Response 500 (error_body ''Failed to record payment''), coll)
         | Inr flt \<Rightarrow>
             (case find_one E coll flt of
                None \<Rightarrow> (Response 404 (error_body ''Invoice not found''), coll)
              | Some invoice \<Rightarrow>
                  if \<not> truthy invoice
                  then (Response 404 (error_body ''Invoice not found''), coll)
                  else
                    (case payment_update (str_float E) now invoice req of
                       Inl r \<Rightarrow> (r, coll)
                     | Inr upd \<Rightarrow>
                         (case update_one E coll flt upd of
                            ((matched, modified), coll') \<Rightarrow>
                              if modified = 0
                              then (Response 500 (error_body ''Failed to record payment''),
                                    coll')
                              else
                                (Response 200
                                   (case find_one E coll' flt of
                                      None \<Rightarrow> PNone | Some updated \<Rightarrow> updated),
                                 coll'))))))"


section \<open>Creating an invoice: \<^verbatim>\<open>create_invoice\<close>\<close>

text \<open>
  The document that the handler builds from the request body, up to the call of
  \<^verbatim>\<open>insert_one\<close>: a response where the handler returns early or an exception reaches
  the outer \<^verbatim>\<open>except Exception\<close> (the text of the exception in the body is left
  out). \<open>nows\<close> are the two readings of the clock. A body that is not a dict fails at
  \<^verbatim>\<open>copy\<close> or at the first \<^verbatim>\<open>get\<close> with AttributeError.
\<close>

definition server_error :: response where
  "server_error = Response 500 (error_body ''Failed to create invoice'')"

definition create_document :: "env \<Rightarrow> pyval \<times> pyval \<Rightarrow> pyval list \<Rightarrow> pyval
    \<Rightarrow> response + pyval" where
  "create_document E nows coll req =
     (let invoice_data = req in
      case py_get invoice_data ''items'' (PList []) of
        Inl e \<Rightarrow> Inl server_error
      | Inr items \<Rightarrow>
          if \<not> truthy items \<or> \<not> is_list items
          then Inl (Response 400 (error_body '''items' must be a non-empty list''))
          else
            (case bindE (py_get invoice_data ''from'' (PDict [])) (\<lambda>from_v.
                  bindE (py_get (set_item ''from'' from_v invoice_data) ''for'' (PDict []))
                    (\<lambda>for_v.
                  (let invoice_data = set_item ''for'' for_v
                         (set_item ''from'' from_v invoice_data) in
                  bindE (py_get invoice_data ''currency'' (PStr ''INR'')) (\<lambda>currency.
                  bindE (bindE (py_get invoice_data ''gst_rate'' (PInt 18))
                           (py_float (str_float E))) (\<lambda>gst_rate.
                  bindE (calculate_invoice_total (str_float E) items (PFloat gst_rate))
                    (\<lambda>total'.
                  bindE (gen_number E coll) (\<lambda>invoice_number.
                  Inr (set_fields
                         [(''invoice_number'', PStr invoice_number),
                          (''total'', PFloat total'),
                          (''status'', PStr ''unpaid''),
                          (''amount_paid'', PFloat 0),
                          (''currency'', currency),
                          (''gst_rate'', PFloat gst_rate),
                          (''created_at'', fst nows),
                          (''updated_at'', snd nows)] invoice_data)))))))) of
               Inl e \<Rightarrow> Inl server_error
             | Inr doc \<Rightarrow> Inr doc))"

text \<open>\<^verbatim>\<open>insert_one\<close>: the driver adds an \<^verbatim>\<open>_id\<close> to a document that has none; the
  result is \<^verbatim>\<open>inserted_id\<close> and the collection.\<close>

definition insert_one :: "env \<Rightarrow> pyval list \<Rightarrow> pyval \<Rightarrow> (pyval \<times> pyval list) result" where
  "insert_one E coll doc =
     (case db_new_id E coll doc of
        Inl e \<Rightarrow> Inl e
      | Inr oid \<Rightarrow>
          (case py_get doc ''_id'' (PObj oid) of
             Inl e \<Rightarrow> Inl e
           | Inr inserted_id \<Rightarrow> Inr (inserted_id, coll @ [set_item ''_id'' inserted_id doc])))"

definition create_invoice :: "env \<Rightarrow> pyval \<times> pyval \<Rightarrow> pyval list \<Rightarrow> pyval
    \<Rightarrow> response \<times> pyval list" where
  "create_invoice E nows coll req =
     (if \<not> truthy req then (Response 400 (error_body ''No data provided''), coll)
      else
        (case create_document E nows coll req of
           Inl r \<Rightarrow> (r, coll)
         | Inr doc \<Rightarrow>
             (case insert_one E coll doc of
                Inl e \<Rightarrow> (server_error, coll)
              | Inr (inserted_id, coll') \<Rightarrow>
                  (Response 201
                     (case find_one E coll' (PDict [(''_id'', inserted_id)]) of
                        None \<Rightarrow> PNone | Some created \<Rightarrow> created),
                   coll'))))"

section \<open>The reporting aggregator: \<^verbatim>\<open>reports_summary\<close>\<close>

text \<open>
  A dict key: two values are the same key when they are equal and hashable, so
  \<^verbatim>\<open>1\<close>, \<^verbatim>\<open>1.0\<close> and \<^verbatim>\<open>True\<close> are one key. A list or a dict as a key raises
  TypeError.
\<close>

datatype pykey = KNone | KNum rat | KStr string | KObj string

fun py_hash :: "pyval \<Rightarrow> pykey result" where
  "py_hash PNone = Inr KNone"
| "py_hash (PBool b) = Inr (KNum (if b then 1 else 0))"
| "py_hash (PInt n) = Inr (KNum (of_int n))"
| "py_hash (PFloat r) = Inr (KNum r)"
| "py_hash (PStr s) = Inr (KStr s)"
| "py_hash (PList xs) = Inl TypeError"
| "py_hash (PDict d) = Inl TypeError"
| "py_hash (PObj s) = Inr (KObj s)"

text \<open>The accumulators of the loop. The dicts keep the order of first insertion;
  \<open>client_revenue\<close> keeps with each key the id as first met.\<close>

record agg =
  total_invoiced :: rat
  total_paid :: rat
  status_breakdown :: "(string \<times> nat) list"
  client_revenue :: "(pykey \<times> pyval \<times> rat) list"
  monthly_data :: "(string \<times> rat) list"

definition agg0 :: agg where
  "agg0 = \<lparr>total_invoiced = 0, total_paid = 0,
           status_breakdown = [(''paid'', 0), (''partial'', 0), (''unpaid'', 0)],
           client_revenue = [], monthly_data = []\<rparr>"

text \<open>\<^verbatim>\<open>if status in status_breakdown: status_breakdown[status] += 1\<close>\<close>

definition count_status :: "pyval \<Rightarrow> (string \<times> nat) list \<Rightarrow> (string \<times> nat) list result" where
  "count_status status sb =
     bindE (py_hash status) (\<lambda>k.
       case k of
         KStr s \<Rightarrow> (case map_of sb s of
                      None \<Rightarrow> Inr sb
                    | Some n \<Rightarrow> Inr (AList.update s (n + 1) sb))
       | _ \<Rightarrow> Inr sb)"

text \<open>\<^verbatim>\<open>d[k] += x\<close> on a \<^verbatim>\<open>defaultdict(float)\<close>.\<close>

definition add_revenue :: "pyval \<Rightarrow> rat \<Rightarrow> (pykey \<times> pyval \<times> rat) list
    \<Rightarrow> (pykey \<times> pyval \<times> rat) list result" where
  "add_revenue client_id x d =
     bindE (py_hash client_id) (\<lambda>k.
       case map_of d k of
         None \<Rightarrow> Inr (d @ [(k, (client_id, 0 + x))])
       | Some (first_id, a) \<Rightarrow> Inr (AList.update k (first_id, a + x) d))"

definition add_amount :: "string \<Rightarrow> rat \<Rightarrow> (string \<times> rat) list \<Rightarrow> (string \<times> rat) list" where
  "add_amount k x d =
     (case map_of d k of
        None \<Rightarrow> d @ [(k, 0 + x)]
      | Some a \<Rightarrow> AList.update k (a + x) d)"

text \<open>\<^verbatim>\<open>month_key = invoice_date[:7]\<close> as a key of \<open>monthly_data\<close>: a string gives its
  first seven characters; a list is sliced and then refused as a key; nothing else
  can be sliced.\<close>

fun month_key :: "env \<Rightarrow> pyval \<Rightarrow> string result" where
  "month_key E (PStr s) = Inr (take 7 s)"
| "month_key E (PList xs) = Inl TypeError"
| "month_key E (PDict d) = Inl (dict_slice_error E)"
| "month_key E v = Inl TypeError"

text \<open>
  The body of the loop over the invoices, in its steps, the last one first: each gives
  the accumulators it leaves and the exception that ended the body, if any. The inner
  handler of the monthly step is \<^verbatim>\<open>except (IndexError, ValueError): pass\<close>.
\<close>

definition monthly_step :: "env \<Rightarrow> agg \<Rightarrow> pyval \<Rightarrow> rat \<Rightarrow> agg \<times> error option" where
  "monthly_step E st invoice invoice_total =
     (case py_get invoice ''date'' (PStr []) of
        Inl e \<Rightarrow> (st, Some e)
      | Inr invoice_date \<Rightarrow>
          if truthy invoice_date
          then (case month_key E invoice_date of
                  Inl e \<Rightarrow> if e = IndexError \<or> e = ValueError then (st, None)
                           else (st, Some e)
                | Inr k \<Rightarrow>
                    (st\<lparr>monthly_data := add_amount k invoice_total (monthly_data st)\<rparr>,
                     None))
          else (st, None))"

definition client_step :: "env \<Rightarrow> agg \<Rightarrow> pyval \<Rightarrow> rat \<Rightarrow> agg \<times> error option" where
  "client_step E st invoice invoice_total =
     (case bindE (py_get invoice ''for'' (PDict [])) (\<lambda>for_v. py_get for_v ''id'' PNone) of
        Inl e \<Rightarrow> (st, Some e)
      | Inr client_id \<Rightarrow>
          (case (if truthy client_id
                 then add_revenue client_id invoice_total (client_revenue st)
                 else Inr (client_revenue st)) of
             Inl e \<Rightarrow> (st, Some e)
           | Inr cr \<Rightarrow> monthly_step E (st\<lparr>client_revenue := cr\<rparr>) invoice invoice_total))"

definition status_step :: "env \<Rightarrow> agg \<Rightarrow> pyval \<Rightarrow> rat \<Rightarrow> pyval \<Rightarrow> agg \<times> error option" where
  "status_step E st invoice invoice_total status =
     (case count_status status (status_breakdown st) of
        Inl e \<Rightarrow> (st, Some e)
      | Inr sb \<Rightarrow> client_step E (st\<lparr>status_breakdown := sb\<rparr>) invoice invoice_total)"

definition process_invoice :: "env \<Rightarrow> agg \<Rightarrow> pyval \<Rightarrow> agg \<times> error option" where
  "process_invoice E st invoice =
     (case bindE (py_get invoice ''total'' (PInt 0)) (py_float (str_float E)) of
        Inl e \<Rightarrow> (st, Some e)
      | Inr invoice_total \<Rightarrow>
          (case bindE (py_get invoice ''amount_paid'' (PInt 0)) (py_float (str_float E)) of
             Inl e \<Rightarrow> (st, Some e)
           | Inr amount_paid \<Rightarrow>
               (case py_get invoice ''status'' (PStr ''unpaid'') of
                  Inl e \<Rightarrow> (st, Some e)
                | Inr status \<Rightarrow>
                    status_step E
                      (st\<lparr>total_invoiced := total_invoiced st + invoice_total,
                          total_paid := total_paid st + amount_paid\<rparr>)
                      invoice invoice_total status)))"

text \<open>The loop, with the handler \<^verbatim>\<open>except (ValueError, TypeError): continue\<close> around
  its body.\<close>

fun agg_loop :: "env \<Rightarrow> pyval list \<Rightarrow> agg \<Rightarrow> agg result" where
  "agg_loop E [] st = Inr st"
| "agg_loop E (invoice # rest) st =
     (case process_invoice E st invoice of
        (st', None) \<Rightarrow> agg_loop E rest st'
      | (st', Some e) \<Rightarrow>
          if e = ValueError \<or> e = TypeError then agg_loop E rest st' else Inl e)"

text \<open>\<^verbatim>\<open>client_dict = {c.get("id", c.get("_id")): c for c in clients}\<close>\<close>

fun client_dict :: "pyval list \<Rightarrow> (pykey \<times> pyval) list \<Rightarrow> (pykey \<times> pyval) list result" where
  "client_dict [] acc = Inr acc"
| "client_dict (c # cs) acc =
     bindE (bindE (py_get c ''_id'' PNone) (\<lambda>d. py_get c ''id'' d)) (\<lambda>cid.
     bindE (py_hash cid) (\<lambda>k. client_dict cs (AList.update k c acc)))"

record top_client =
  tc_id :: pyval
  tc_name :: pyval
  tc_email :: pyval
  revenue :: rat

text \<open>The body of the loop that fills \<open>top_clients\<close>, and the loop, before the
  sort.\<close>

definition top_entry :: "env \<Rightarrow> (pykey \<times> pyval) list \<Rightarrow> pykey \<times> pyval \<times> rat
    \<Rightarrow> top_client option result" where
  "top_entry E cd item =
     (case item of (k, client_id, accrued) \<Rightarrow>
        if accrued > 0 \<and> map_of cd k \<noteq> None
        then
          (case map_of cd k of
             None \<Rightarrow> Inr None
           | Some client \<Rightarrow>
               bindE (py_get client ''name'' (PStr (''Client '' @ py_str E client_id)))
                 (\<lambda>name.
               bindE (py_get client ''email'' (PStr [])) (\<lambda>email.
               Inr (Some \<lparr>tc_id = client_id, tc_name = name, tc_email = email,
                          revenue = round2 accrued\<rparr>))))
        else Inr None)"

fun top_entries :: "env \<Rightarrow> (pykey \<times> pyval) list \<Rightarrow> (pykey \<times> pyval \<times> rat) list
    \<Rightarrow> top_client list result" where
  "top_entries E cd [] = Inr []"
| "top_entries E cd (item # rest) =
     bindE (top_entry E cd item) (\<lambda>entry.
     bindE (top_entries E cd rest) (\<lambda>more.
     Inr (case entry of None \<Rightarrow> more | Some c \<Rightarrow> c # more)))"

text \<open>\<^verbatim>\<open>top_clients.sort(key=lambda c: c["revenue"], reverse=True)\<close>: Python's sort is
  stable, also with \<^verbatim>\<open>reverse=True\<close>.\<close>

definition sort_top :: "top_client list \<Rightarrow> top_client list" where
  "sort_top cs = sort_key (\<lambda>c. - revenue c) cs"

text \<open>The loop over \<^verbatim>\<open>sorted(monthly_data.items())\<close>: the keys of a dict are distinct,
  so the pairs are ordered by their keys. A key that \<^verbatim>\<open>strptime\<close> refuses is skipped.\<close>

definition sorted_months :: "(string \<times> rat) list \<Rightarrow> (string \<times> rat) list" where
  "sorted_months md = sort_key fst md"

definition monthly_list :: "env \<Rightarrow> (string \<times> rat) list \<Rightarrow> (string \<times> rat) list" where
  "monthly_list E md =
     List.map_filter
       (\<lambda>(month, amount).
          case month_label E month of
            None \<Rightarrow> None
          | Some month_name \<Rightarrow> Some (month_name, round2 amount))
       (sorted_months md)"

text \<open>\<^verbatim>\<open>xs[-6:]\<close>\<close>

definition last6 :: "'a list \<Rightarrow> 'a list" where
  "last6 xs = drop (length xs - 6) xs"

record summary =
  out_total_invoiced :: rat
  out_total_paid :: rat
  out_total_outstanding :: rat
  out_invoice_count :: nat
  out_client_count :: nat
  out_status_breakdown :: "(string \<times> nat) list"
  out_top_clients :: "top_client list"
  out_monthly_data :: "(string \<times> rat) list"
  out_average_invoice :: rat
  out_collection_rate :: rat

text \<open>The body of the outer \<^verbatim>\<open>try\<close>: the data of the response, or the exception
  that reaches \<^verbatim>\<open>except Exception\<close>.\<close>

definition summarize :: "env \<Rightarrow> pyval list \<Rightarrow> pyval list \<Rightarrow> summary result" where
  "summarize E invoices clients =
     bindE (agg_loop E invoices agg0) (\<lambda>st.
     (let total_outstanding = total_invoiced st - total_paid st in
      bindE (client_dict clients []) (\<lambda>cd.
      bindE (top_entries E cd (client_revenue st)) (\<lambda>entries.
      (let top_clients = sort_top entries;
           months = monthly_list E (monthly_data st)
       in Inr \<lparr>out_total_invoiced = round2 (total_invoiced st),
               out_total_paid = round2 (total_paid st),
               out_total_outstanding = round2 total_outstanding,
               out_invoice_count = length invoices,
               out_client_count = length clients,
               out_status_breakdown = status_breakdown st,
               out_top_clients = take 5 top_clients,
               out_monthly_data = last6 months,
               out_average_invoice =
                 (if invoices \<noteq> []
                  then round2 (total_invoiced st / of_nat (length invoices)) else 0),
               out_collection_rate =
                 (if total_invoiced st > 0
                  then round2 (total_paid st / total_invoiced st * 100) else 0)\<rparr>)))))"

text \<open>The handler: status 200 with the data, or status 500. The encoding of the data
  by \<^verbatim>\<open>jsonify\<close> belongs to the web framework and is not part of this model.\<close>

definition reports_summary :: "env \<Rightarrow> pyval list \<Rightarrow> pyval list \<Rightarrow> nat \<times> summary option" where
  "reports_summary E invoices clients =
     (case summarize E invoices clients of
        Inl e \<Rightarrow> (500, None)
      | Inr s \<Rightarrow> (200, Some s))"

section \<open>The statements of the specification\<close>







text \<open>What an invoice document holds, read as the handlers read it.\<close>

definition doc_number :: "str_parser \<Rightarrow> pyval \<Rightarrow> string \<Rightarrow> rat result" where
  "doc_number pf doc k = bindE (py_get doc k (PInt 0)) (py_float pf)"



definition doc_status :: "pyval \<Rightarrow> pyval" where
  "doc_status doc = (case py_get doc ''status'' (PStr ''unpaid'') of Inl e \<Rightarrow> PNone | Inr s \<Rightarrow> s)"



text \<open>
  What one invoice adds to the summary, stated apart from the loop. An invoice counts
  toward the totals when its \<open>total\<close> and its \<open>amount_paid\<close> convert to numbers. It
  enters the monthly breakdown when, moreover, its status and its client id can be
  dict keys and its \<open>date\<close> is a string that is not empty: its key is then the first
  seven characters of the date.
\<close>

definition counted :: "str_parser \<Rightarrow> pyval \<Rightarrow> (rat \<times> rat) option" where
  "counted pf invoice =
     (case doc_number pf invoice ''total'' of
        Inl e \<Rightarrow> None
      | Inr t \<Rightarrow>
          (case doc_number pf invoice ''amount_paid'' of
             Inl e \<Rightarrow> None
           | Inr a \<Rightarrow> Some (t, a)))"

definition hashable :: "pyval \<Rightarrow> bool" where
  "hashable v = (case py_hash v of Inl e \<Rightarrow> False | Inr k \<Rightarrow> True)"

definition client_of :: "pyval \<Rightarrow> pyval result" where
  "client_of invoice =
     bindE (py_get invoice ''for'' (PDict [])) (\<lambda>for_v. py_get for_v ''id'' PNone)"



text \<open>The key of a client in the roster.\<close>

definition client_key :: "pyval \<Rightarrow> pykey result" where
  "client_key c = bindE (bindE (py_get c ''_id'' PNone) (\<lambda>d. py_get c ''id'' d)) py_hash"



text \<open>An invoice enters the revenue of a client when its two amounts convert, its
  status can be a dict key, and its client id is truthy and can be a dict key: the entry
  is the key, the id and the total. Filing an entry adds the total to the revenue under
  the key, and keeps the id first met.\<close>

definition client_entry :: "env \<Rightarrow> pyval \<Rightarrow> (pykey \<times> pyval \<times> rat) option" where
  "client_entry E invoice =
     (case counted (str_float E) invoice of
        None \<Rightarrow> None
      | Some (t, a) \<Rightarrow>
          if \<not> hashable (doc_status invoice) then None
          else
            (case client_of invoice of
               Inl e \<Rightarrow> None
             | Inr client_id \<Rightarrow>
                 if truthy client_id
                 then (case py_hash client_id of
                         Inl e \<Rightarrow> None
                       | Inr k \<Rightarrow> Some (k, client_id, t))
                 else None))"

definition file_client :: "(pykey \<times> pyval \<times> rat) option \<Rightarrow> (pykey \<times> pyval \<times> rat) list
    \<Rightarrow> (pykey \<times> pyval \<times> rat) list" where
  "file_client entry cr =
     (case entry of
        None \<Rightarrow> cr
      | Some (k, client_id, t) \<Rightarrow>
          (case map_of cr k of
             None \<Rightarrow> cr @ [(k, (client_id, 0 + t))]
           | Some (first_id, a) \<Rightarrow> AList.update k (first_id, a + t) cr))"

text \<open>The revenue filed under a key.\<close>

definition revenue_of :: "(pykey \<times> pyval \<times> rat) list \<Rightarrow> pykey \<Rightarrow> rat" where
  "revenue_of cr k = (case map_of cr k of None \<Rightarrow> 0 | Some (first_id, a) \<Rightarrow> a)"

text \<open>An environment for the concrete runs below: no string is a number, every id is
  an ObjectId, a filter matches on \<^verbatim>\<open>_id\<close>, and a month key of seven characters is its
  own label.\<close>

definition example_env :: env where
  "example_env =
     \<lparr>str_float = (\<lambda>s. None),
      str_int = (\<lambda>s. None),
      oid_is_valid = (\<lambda>s. True),
      db_matches = (\<lambda>flt doc. py_get doc ''_id'' PNone = py_get flt ''_id'' (PObj [])),
      db_new_id = (\<lambda>coll doc. Inr ''oid1''),
      gen_number = (\<lambda>coll. Inr ''INV-0001''),
      month_label = (\<lambda>s. if length s = 7 then Some s else None),
      py_str = (\<lambda>v. ''?''),
      dict_slice_error = TypeError\<rparr>"

section \<open>Properties of the totals engine\<close>





section \<open>Properties of the payment action\<close>






subsection \<open>Rounding to cents\<close>








subsection \<open>One accepted payment\<close>








text \<open>
  Claim C7. A payment request whose amount converts to a number that is zero or negative
  is answered with an error status, and the collection is left as it was; when the
  request is not empty and the invoice is found, the answer is status 400 with the
  message that the amount must be positive.
\<close>

theorem pay_invoice_rejects_nonpositive:
  "doc_number (str_float E) req ''amount'' = Inr payment \<and> payment \<le> 0 \<longrightarrow>
     snd (pay_invoice E now coll invoice_id req) = coll
     \<and> code (fst (pay_invoice E now coll invoice_id req)) \<in> {400, 404, 500}
     \<and> (truthy req \<and> invoice_filter E invoice_id = Inr flt
          \<and> find_one E coll flt = Some invoice \<and> truthy invoice \<longrightarrow>
        fst (pay_invoice E now coll invoice_id req)
          = Response 400 (error_body ''Payment amount must be positive''))"
  by (auto simp: pay_invoice_def payment_update_def doc_number_def
      split: sum.splits option.splits)

theorem pay_invoice_rejects_nonpositive_witness:
  "doc_number (str_float example_env) (PDict [(''amount'', PInt (- 5))]) ''amount'' = Inr (- 5)
   \<and> (- 5 :: rat) \<le> 0
   \<and> truthy (PDict [(''amount'', PInt (- 5))])
   \<and> invoice_filter example_env ''a1'' = Inr (PDict [(''_id'', PObj ''a1'')])
   \<and> find_one example_env
        [PDict [(''_id'', PObj ''a1''), (''total'', PFloat 256), (''amount_paid'', PFloat 256),
                (''status'', PStr ''paid'')]] (PDict [(''_id'', PObj ''a1'')])
      = Some (PDict [(''_id'', PObj ''a1''), (''total'', PFloat 256),
                     (''amount_paid'', PFloat 256), (''status'', PStr ''paid'')])
   \<and> pay_invoice example_env (PObj ''t1'')
        [PDict [(''_id'', PObj ''a1''), (''total'', PFloat 256), (''amount_paid'', PFloat 256),
                (''status'', PStr ''paid'')]] ''a1'' (PDict [(''amount'', PInt (- 5))])
      = (Response 400 (error_body ''Payment amount must be positive''),
         [PDict [(''_id'', PObj ''a1''), (''total'', PFloat 256), (''amount_paid'', PFloat 256),
                (''status'', PStr ''paid'')]])"
proof -
  have a: "doc_number (str_float example_env) (PDict [(''amount'', PInt (- 5))]) ''amount''
      = Inr (- 5) \<and> (- 5 :: rat) \<le> 0"
    by (simp add: doc_number_def bindE_def)
  have f: "truthy (PDict [(''amount'', PInt (- 5))])
   \<and> invoice_filter example_env ''a1'' = Inr (PDict [(''_id'', PObj ''a1'')])
   \<and> find_one example_env
        [PDict [(''_id'', PObj ''a1''), (''total'', PFloat 256), (''amount_paid'', PFloat 256),
                (''status'', PStr ''paid'')]] (PDict [(''_id'', PObj ''a1'')])
      = Some (PDict [(''_id'', PObj ''a1''), (''total'', PFloat 256),
                     (''amount_paid'', PFloat 256), (''status'', PStr ''paid'')])
   \<and> truthy (PDict [(''_id'', PObj ''a1''), (''total'', PFloat 256),
                     (''amount_paid'', PFloat 256), (''status'', PStr ''paid'')])"
    by (simp add: invoice_filter_def find_one_def example_env_def)
  from a f pay_invoice_rejects_nonpositive[of example_env "PDict [(''amount'', PInt (- 5))]"
      "- 5" "PObj ''t1''"
      "[PDict [(''_id'', PObj ''a1''), (''total'', PFloat 256), (''amount_paid'', PFloat 256),
                (''status'', PStr ''paid'')]]" "''a1''" "PDict [(''_id'', PObj ''a1'')]"
      "PDict [(''_id'', PObj ''a1''), (''total'', PFloat 256),
                     (''amount_paid'', PFloat 256), (''status'', PStr ''paid'')]"]
  show ?thesis
    by (metis prod.collapse)
qed

section \<open>Malformed input\<close>

subsection \<open>Items that do not convert\<close>








text \<open>
  Claim C6 fails on the code. An item that is not a record raises AttributeError at
  \<^verbatim>\<open>item.get\<close>, which the handler of the loop body does not catch, and the conversion
  of the rate is outside every handler; in the aggregation, an invoice whose \<open>for\<close> is
  \<open>null\<close> raises AttributeError past the handler of the loop body and ends the whole
  summary with status 500.
\<close>

theorem totals_engine_raises:
  "calculate_invoice_total pf (PList [PInt 5]) (PInt 18) = Inl AttributeError
   \<and> calculate_invoice_total pf (PList [PDict []]) PNone = Inl TypeError
   \<and> summarize E [PDict [(''total'', PInt 1), (''for'', PNone)]] clients = Inl AttributeError
   \<and> reports_summary E [PDict [(''total'', PInt 1), (''for'', PNone)]] clients = (500, None)"
proof -
  have s: "summarize E [PDict [(''total'', PInt 1), (''for'', PNone)]] clients
      = Inl AttributeError"
    by (simp add: summarize_def process_invoice_def status_step_def client_step_def
        bindE_def agg0_def count_status_def)
  show ?thesis
    by (simp add: s reports_summary_def)
      (simp add: calculate_invoice_total_def item_fields_def bindE_def)
qed

theorem totals_engine_raises_witness:
  "calculate_invoice_total (str_float example_env) (PList [PInt 5]) (PInt 18)
     = Inl AttributeError
   \<and> calculate_invoice_total (str_float example_env) (PList [PDict []]) PNone = Inl TypeError
   \<and> summarize example_env [PDict [(''total'', PInt 1), (''for'', PNone)]] []
     = Inl AttributeError
   \<and> reports_summary example_env [PDict [(''total'', PInt 1), (''for'', PNone)]] []
     = (500, None)"
  by (rule totals_engine_raises)

section \<open>Properties of invoice creation\<close>

lemma calculate_invoice_total_rate:
  "py_float pf gst_rate = Inr g \<Longrightarrow>
   calculate_invoice_total pf items (PFloat g) = calculate_invoice_total pf items gst_rate"
  by (simp add: calculate_invoice_total_def)

lemma py_get_dict: "py_get v k dflt = Inr x \<Longrightarrow> \<exists>d. v = PDict d"
  by (cases v) simp_all

lemma create_document_fields:
  assumes "create_document E nows coll req = Inr doc"
  shows "\<exists>d items gst_rate t.
           doc = PDict d
           \<and> py_get req ''items'' (PList []) = Inr items
           \<and> py_get req ''gst_rate'' (PInt 18) = Inr gst_rate
           \<and> calculate_invoice_total (str_float E) items gst_rate = Inr t
           \<and> map_of d ''total'' = Some (PFloat t)
           \<and> map_of d ''status'' = Some (PStr ''unpaid'')
           \<and> map_of d ''amount_paid'' = Some (PFloat 0)"
proof -
  from assms obtain items where items: "py_get req ''items'' (PList []) = Inr items"
    by (auto simp: create_document_def Let_def split: sum.splits)
  from py_get_dict[OF items] obtain r where req: "req = PDict r" by blast
  from assms items req show ?thesis
    by (auto simp: create_document_def Let_def bindE_def update_conv
        calculate_invoice_total_rate
        split: sum.splits if_splits option.splits)
qed

text \<open>
  Claim C10. Whatever the request body holds, \<^verbatim>\<open>create_invoice\<close> either leaves the
  collection as it was and answers with a status other than 201, or answers 201 and adds
  one document, whose \<open>status\<close> is \<open>unpaid\<close>, whose \<open>amount_paid\<close> is 0.0 and whose
  \<open>total\<close> is what \<^verbatim>\<open>calculate_invoice_total\<close> returns for the \<open>items\<close> and the
  \<open>gst_rate\<close> of the request (18 when it has none).
\<close>

theorem create_invoice_overrides:
  "create_invoice E nows coll req = (r, coll') \<longrightarrow>
     (code r \<noteq> 201 \<and> coll' = coll)
     \<or> (code r = 201
        \<and> (\<exists>d items gst_rate t.
              coll' = coll @ [PDict d]
              \<and> py_get req ''items'' (PList []) = Inr items
              \<and> py_get req ''gst_rate'' (PInt 18) = Inr gst_rate
              \<and> calculate_invoice_total (str_float E) items gst_rate = Inr t
              \<and> map_of d ''total'' = Some (PFloat t)
              \<and> map_of d ''status'' = Some (PStr ''unpaid'')
              \<and> map_of d ''amount_paid'' = Some (PFloat 0)))"
proof
  assume c: "create_invoice E nows coll req = (r, coll')"
  show "(code r \<noteq> 201 \<and> coll' = coll)
     \<or> (code r = 201
        \<and> (\<exists>d items gst_rate t.
              coll' = coll @ [PDict d]
              \<and> py_get req ''items'' (PList []) = Inr items
              \<and> py_get req ''gst_rate'' (PInt 18) = Inr gst_rate
              \<and> calculate_invoice_total (str_float E) items gst_rate = Inr t
              \<and> map_of d ''total'' = Some (PFloat t)
              \<and> map_of d ''status'' = Some (PStr ''unpaid'')
              \<and> map_of d ''amount_paid'' = Some (PFloat 0)))"
  proof (cases "create_document E nows coll req")
    case (Inl resp)
    then have "resp = server_error \<or> resp = Response 400 (error_body '''items' must be a non-empty list'')"
      by (auto simp: create_document_def Let_def split: sum.splits if_splits)
    with c Inl show ?thesis
      by (auto simp: create_invoice_def server_error_def split: if_splits)
  next
    case (Inr doc)
    from create_document_fields[OF Inr] obtain d items gst_rate t where
      doc: "doc = PDict d"
      and f: "py_get req ''items'' (PList []) = Inr items"
         "py_get req ''gst_rate'' (PInt 18) = Inr gst_rate"
         "calculate_invoice_total (str_float E) items gst_rate = Inr t"
         "map_of d ''total'' = Some (PFloat t)"
         "map_of d ''status'' = Some (PStr ''unpaid'')"
         "map_of d ''amount_paid'' = Some (PFloat 0)"
      by blast
    show ?thesis
    proof (cases "truthy req")
      case False
      with c show ?thesis by (auto simp: create_invoice_def)
    next
      case True
      show ?thesis
      proof (cases "db_new_id E coll doc")
        case (Inl e)
        with c True Inr show ?thesis
          by (auto simp: create_invoice_def insert_one_def server_error_def)
      next
        case oid: (Inr oid)
        define inserted where
          "inserted = (case map_of d ''_id'' of None \<Rightarrow> PObj oid | Some v \<Rightarrow> v)"
        from c True Inr oid doc have
          "coll' = coll @ [PDict (AList.update ''_id'' inserted d)]" and "code r = 201"
          by (auto simp: create_invoice_def insert_one_def inserted_def)
        moreover have "map_of (AList.update ''_id'' inserted d) ''total'' = Some (PFloat t)"
          "map_of (AList.update ''_id'' inserted d) ''status'' = Some (PStr ''unpaid'')"
          "map_of (AList.update ''_id'' inserted d) ''amount_paid'' = Some (PFloat 0)"
          using f by (simp_all add: update_conv)
        ultimately show ?thesis using f by blast
      qed
    qed
  qed
qed

theorem create_invoice_overrides_witness:
  "create_invoice example_env (PObj ''t1'', PObj ''t2'') []
     (PDict [(''items'', PList [PDict [(''quantity'', PInt 2), (''unit_price'', PInt 100),
                                       (''tax'', PInt 10)]]),
             (''status'', PStr ''paid''), (''amount_paid'', PInt 999), (''total'', PInt 1)])
   = (Response 201
        (PDict [(''items'', PList [PDict [(''quantity'', PInt 2), (''unit_price'', PInt 100),
                                          (''tax'', PInt 10)]]),
                (''status'', PStr ''unpaid''), (''amount_paid'', PFloat 0),
                (''total'', PFloat 256), (''from'', PDict []), (''for'', PDict []),
                (''invoice_number'', PStr ''INV-0001''), (''currency'', PStr ''INR''),
                (''gst_rate'', PFloat 18), (''created_at'', PObj ''t1''),
                (''updated_at'', PObj ''t2''), (''_id'', PObj ''oid1'')]),
      [PDict [(''items'', PList [PDict [(''quantity'', PInt 2), (''unit_price'', PInt 100),
                                          (''tax'', PInt 10)]]),
                (''status'', PStr ''unpaid''), (''amount_paid'', PFloat 0),
                (''total'', PFloat 256), (''from'', PDict []), (''for'', PDict []),
                (''invoice_number'', PStr ''INV-0001''), (''currency'', PStr ''INR''),
                (''gst_rate'', PFloat 18), (''created_at'', PObj ''t1''),
                (''updated_at'', PObj ''t2''), (''_id'', PObj ''oid1'')]])
   \<and> (\<exists>d items gst_rate t.
         [PDict [(''items'', PList [PDict [(''quantity'', PInt 2), (''unit_price'', PInt 100),
                                          (''tax'', PInt 10)]]),
                (''status'', PStr ''unpaid''), (''amount_paid'', PFloat 0),
                (''total'', PFloat 256), (''from'', PDict []), (''for'', PDict []),
                (''invoice_number'', PStr ''INV-0001''), (''currency'', PStr ''INR''),
                (''gst_rate'', PFloat 18), (''created_at'', PObj ''t1''),
                (''updated_at'', PObj ''t2''), (''_id'', PObj ''oid1'')]] = [] @ [PDict d]
         \<and> calculate_invoice_total (str_float example_env) items gst_rate = Inr t
         \<and> map_of d ''total'' = Some (PFloat t)
         \<and> map_of d ''status'' = Some (PStr ''unpaid'')
         \<and> map_of d ''amount_paid'' = Some (PFloat 0))"
proof -
  have c: "create_invoice example_env (PObj ''t1'', PObj ''t2'') []
     (PDict [(''items'', PList [PDict [(''quantity'', PInt 2), (''unit_price'', PInt 100),
                                       (''tax'', PInt 10)]]),
             (''status'', PStr ''paid''), (''amount_paid'', PInt 999), (''total'', PInt 1)])
   = (Response 201
        (PDict [(''items'', PList [PDict [(''quantity'', PInt 2), (''unit_price'', PInt 100),
                                          (''tax'', PInt 10)]]),
                (''status'', PStr ''unpaid''), (''amount_paid'', PFloat 0),
                (''total'', PFloat 256), (''from'', PDict []), (''for'', PDict []),
                (''invoice_number'', PStr ''INV-0001''), (''currency'', PStr ''INR''),
                (''gst_rate'', PFloat 18), (''created_at'', PObj ''t1''),
                (''updated_at'', PObj ''t2''), (''_id'', PObj ''oid1'')]),
      [PDict [(''items'', PList [PDict [(''quantity'', PInt 2), (''unit_price'', PInt 100),
                                          (''tax'', PInt 10)]]),
                (''status'', PStr ''unpaid''), (''amount_paid'', PFloat 0),
                (''total'', PFloat 256), (''from'', PDict []), (''for'', PDict []),
                (''invoice_number'', PStr ''INV-0001''), (''currency'', PStr ''INR''),
                (''gst_rate'', PFloat 18), (''created_at'', PObj ''t1''),
                (''updated_at'', PObj ''t2''), (''_id'', PObj ''oid1'')]])"
    by code_simp
  from create_invoice_overrides[rule_format, OF c]
  have e: "\<exists>d items gst_rate t.
         [PDict [(''items'', PList [PDict [(''quantity'', PInt 2), (''unit_price'', PInt 100),
                                          (''tax'', PInt 10)]]),
                (''status'', PStr ''unpaid''), (''amount_paid'', PFloat 0),
                (''total'', PFloat 256), (''from'', PDict []), (''for'', PDict []),
                (''invoice_number'', PStr ''INV-0001''), (''currency'', PStr ''INR''),
                (''gst_rate'', PFloat 18), (''created_at'', PObj ''t1''),
                (''updated_at'', PObj ''t2''), (''_id'', PObj ''oid1'')]] = [] @ [PDict d]
         \<and> calculate_invoice_total (str_float example_env) items gst_rate = Inr t
         \<and> map_of d ''total'' = Some (PFloat t)
         \<and> map_of d ''status'' = Some (PStr ''unpaid'')
         \<and> map_of d ''amount_paid'' = Some (PFloat 0)"
    by simp blast
  from c e show ?thesis by (rule conjI)
qed

section \<open>Properties of the reporting aggregator\<close>

subsection \<open>The effect of one invoice on the accumulators\<close>










subsection \<open>The loop over the invoices\<close>




subsection \<open>Filing amounts under keys\<close>











subsection \<open>The summary\<close>

lemma summarize_Inr:
  assumes "summarize E invoices clients = Inr s"
  shows "\<exists>st cd entries.
           agg_loop E invoices agg0 = Inr st
           \<and> client_dict clients [] = Inr cd
           \<and> top_entries E cd (client_revenue st) = Inr entries
           \<and> out_total_invoiced s = round2 (total_invoiced st)
           \<and> out_total_paid s = round2 (total_paid st)
           \<and> out_total_outstanding s = round2 (total_invoiced st - total_paid st)
           \<and> out_top_clients s = take 5 (sort_top entries)
           \<and> out_monthly_data s = last6 (monthly_list E (monthly_data st))"
  using assms
  by (auto simp: summarize_def bindE_def Let_def split: sum.splits)









subsection \<open>The monthly breakdown\<close>











subsection \<open>The top clients\<close>

lemma client_dict_keys:
  "client_dict clients acc = Inr cd \<Longrightarrow>
     fst ` set cd = fst ` set acc \<union> {k. \<exists>c \<in> set clients. client_key c = Inr k}"
proof (induction clients arbitrary: acc)
  case Nil
  then show ?case by simp
next
  case (Cons c cs)
  from Cons.prems obtain k where k: "client_key c = Inr k"
    and r: "client_dict cs (AList.update k c acc) = Inr cd"
    by (auto simp: client_key_def bindE_def split: sum.splits)
  from Cons.IH[OF r] k show ?case
    by (auto simp: dom_update)
qed

lemma top_entry_cases:
  assumes "top_entry E cd (k, client_id, accrued) = Inr r"
  shows "if 0 < accrued \<and> k \<in> fst ` set cd
         then \<exists>c. r = Some c \<and> tc_id c = client_id \<and> revenue c = round2 accrued
         else r = None"
proof (cases "map_of cd k")
  case None
  then have "k \<notin> fst ` set cd" by (simp add: map_of_eq_None_iff)
  with assms None show ?thesis by (simp add: top_entry_def)
next
  case (Some client)
  then have "k \<in> fst ` set cd" by (metis map_of_eq_None_iff option.distinct(1))
  with assms Some show ?thesis
    by (auto simp: top_entry_def bindE_def split: sum.splits if_splits)
qed

lemma top_entries_filter:
  "top_entries E cd cr = Inr entries \<Longrightarrow>
     map (\<lambda>e. (tc_id e, revenue e)) entries
       = map (\<lambda>(k, client_id, accrued). (client_id, round2 accrued))
           (filter (\<lambda>(k, client_id, accrued). 0 < accrued \<and> k \<in> fst ` set cd) cr)"
proof (induction cr arbitrary: entries)
  case Nil
  then show ?case by simp
next
  case (Cons item rest)
  obtain k client_id accrued where item: "item = (k, client_id, accrued)"
    by (cases item)
  from Cons.prems obtain r more where r: "top_entry E cd (k, client_id, accrued) = Inr r"
    and m: "top_entries E cd rest = Inr more"
    and e: "entries = (case r of None \<Rightarrow> more | Some c \<Rightarrow> c # more)"
    by (auto simp: item bindE_def split: sum.splits)
  from top_entry_cases[OF r] Cons.IH[OF m] show ?case
    by (auto simp: item e split: if_splits)
qed

lemma sort_top_descending: "sorted_wrt (\<lambda>a b. revenue b \<le> revenue a) (sort_top cs)"
proof -
  have "sorted (map (\<lambda>c. - revenue c) (sort_top cs))"
    by (simp add: sort_top_def)
  then show ?thesis by (simp add: sorted_map)
qed

lemma sort_top_stable:
  "filter (\<lambda>c. revenue c = v) (sort_top cs) = filter (\<lambda>c. revenue c = v) cs"
  using sort_key_stable[of "\<lambda>c. - revenue c" "- v" cs]
  by (simp add: sort_top_def)

text \<open>
  Claim C8. In a summary that is produced, the entries of \<open>top_clients\<close> before the sort
  are, in the order in which the clients were first met, those of the accumulated
  revenues that are greater than 0 and whose key is a key of the roster, each with its
  revenue rounded; the sort puts them in descending order of that revenue and keeps the
  order of the entries of equal revenue; the output is the first five at most.
\<close>

theorem top_clients_ranked:
  "summarize E invoices clients = Inr s \<longrightarrow>
     (\<exists>st cd entries.
        agg_loop E invoices agg0 = Inr st
        \<and> client_dict clients [] = Inr cd
        \<and> top_entries E cd (client_revenue st) = Inr entries
        \<and> fst ` set cd = {k. \<exists>c \<in> set clients. client_key c = Inr k}
        \<and> map (\<lambda>e. (tc_id e, revenue e)) entries
            = map (\<lambda>(k, client_id, accrued). (client_id, round2 accrued))
                (filter (\<lambda>(k, client_id, accrued). 0 < accrued \<and> k \<in> fst ` set cd)
                   (client_revenue st))
        \<and> sorted_wrt (\<lambda>a b. revenue b \<le> revenue a) (sort_top entries)
        \<and> (\<forall>v. filter (\<lambda>c. revenue c = v) (sort_top entries)
                 = filter (\<lambda>c. revenue c = v) entries)
        \<and> out_top_clients s = take 5 (sort_top entries)
        \<and> sorted_wrt (\<lambda>a b. revenue b \<le> revenue a) (out_top_clients s)
        \<and> length (out_top_clients s) \<le> 5)"
proof
  assume a: "summarize E invoices clients = Inr s"
  from summarize_Inr[OF a] obtain st cd entries where
    st: "agg_loop E invoices agg0 = Inr st"
    and cd: "client_dict clients [] = Inr cd"
    and en: "top_entries E cd (client_revenue st) = Inr entries"
    and o: "out_top_clients s = take 5 (sort_top entries)"
    by blast
  have k: "fst ` set cd = {k. \<exists>c \<in> set clients. client_key c = Inr k}"
    using client_dict_keys[OF cd] by simp
  note f = top_entries_filter[OF en]
  have d: "sorted_wrt (\<lambda>a b. revenue b \<le> revenue a) (sort_top entries)"
    by (rule sort_top_descending)
  have d': "sorted_wrt (\<lambda>a b. revenue b \<le> revenue a) (out_top_clients s)"
    unfolding o by (rule sorted_wrt_take[OF d])
  have l: "length (out_top_clients s) \<le> 5"
    by (simp add: o)
  from st cd en k f d d' l o sort_top_stable
  show "\<exists>st cd entries.
        agg_loop E invoices agg0 = Inr st
        \<and> client_dict clients [] = Inr cd
        \<and> top_entries E cd (client_revenue st) = Inr entries
        \<and> fst ` set cd = {k. \<exists>c \<in> set clients. client_key c = Inr k}
        \<and> map (\<lambda>e. (tc_id e, revenue e)) entries
            = map (\<lambda>(k, client_id, accrued). (client_id, round2 accrued))
                (filter (\<lambda>(k, client_id, accrued). 0 < accrued \<and> k \<in> fst ` set cd)
                   (client_revenue st))
        \<and> sorted_wrt (\<lambda>a b. revenue b \<le> revenue a) (sort_top entries)
        \<and> (\<forall>v. filter (\<lambda>c. revenue c = v) (sort_top entries)
                 = filter (\<lambda>c. revenue c = v) entries)
        \<and> out_top_clients s = take 5 (sort_top entries)
        \<and> sorted_wrt (\<lambda>a b. revenue b \<le> revenue a) (out_top_clients s)
        \<and> length (out_top_clients s) \<le> 5"
    by blast
qed

text \<open>
  Nine invoices of eight clients, seven of them in the roster: three clients tie at 100
  and keep the order in which they were met, one client of the roster has a negative
  revenue, one client is not in the roster, and the sixth of the rest is cut.
\<close>

theorem top_clients_ranked_witness:
  "summarize example_env
     [PDict [(''total'', PInt 100), (''for'', PDict [(''id'', PStr ''c1'')])],
      PDict [(''total'', PInt 50), (''for'', PDict [(''id'', PStr ''c2'')])],
      PDict [(''total'', PInt 100), (''for'', PDict [(''id'', PStr ''c3'')])],
      PDict [(''total'', PInt 30), (''for'', PDict [(''id'', PStr ''c4'')])],
      PDict [(''total'', PInt 20), (''for'', PDict [(''id'', PStr ''c5'')])],
      PDict [(''total'', PInt 10), (''for'', PDict [(''id'', PStr ''c6'')])],
      PDict [(''total'', PInt 50), (''for'', PDict [(''id'', PStr ''c2'')])],
      PDict [(''total'', PInt 70), (''for'', PDict [(''id'', PStr ''zz'')])],
      PDict [(''total'', PInt (- 5)), (''for'', PDict [(''id'', PStr ''c7'')])]]
     [PDict [(''id'', PStr ''c1''), (''name'', PStr ''A'')],
      PDict [(''id'', PStr ''c2''), (''name'', PStr ''B'')],
      PDict [(''id'', PStr ''c3'')],
      PDict [(''id'', PStr ''c4'')],
      PDict [(''id'', PStr ''c5'')],
      PDict [(''id'', PStr ''c6'')],
      PDict [(''id'', PStr ''c7'')]]
   = Inr \<lparr>out_total_invoiced = 425, out_total_paid = 0,
        out_total_outstanding = 425, out_invoice_count = 9,
        out_client_count = 7,
        out_status_breakdown = [(''paid'', 0), (''partial'', 0), (''unpaid'', 9)],
        out_top_clients =
          [\<lparr>tc_id = PStr ''c1'', tc_name = PStr ''A'', tc_email = PStr [], revenue = 100\<rparr>,
           \<lparr>tc_id = PStr ''c2'', tc_name = PStr ''B'', tc_email = PStr [], revenue = 100\<rparr>,
           \<lparr>tc_id = PStr ''c3'', tc_name = PStr ''Client ?'', tc_email = PStr [],
              revenue = 100\<rparr>,
           \<lparr>tc_id = PStr ''c4'', tc_name = PStr ''Client ?'', tc_email = PStr [],
              revenue = 30\<rparr>,
           \<lparr>tc_id = PStr ''c5'', tc_name = PStr ''Client ?'', tc_email = PStr [],
              revenue = 20\<rparr>],
        out_monthly_data = [], out_average_invoice = 2361 / 50,
        out_collection_rate = 0\<rparr>
   \<and> sorted_wrt (\<lambda>a b. revenue b \<le> revenue a)
        [\<lparr>tc_id = PStr ''c1'', tc_name = PStr ''A'', tc_email = PStr [], revenue = 100\<rparr>,
           \<lparr>tc_id = PStr ''c2'', tc_name = PStr ''B'', tc_email = PStr [], revenue = 100\<rparr>,
           \<lparr>tc_id = PStr ''c3'', tc_name = PStr ''Client ?'', tc_email = PStr [],
              revenue = 100\<rparr>,
           \<lparr>tc_id = PStr ''c4'', tc_name = PStr ''Client ?'', tc_email = PStr [],
              revenue = 30\<rparr>,
           \<lparr>tc_id = PStr ''c5'', tc_name = PStr ''Client ?'', tc_email = PStr [],
              revenue = 20\<rparr>]
   \<and> length [\<lparr>tc_id = PStr ''c1'', tc_name = PStr ''A'', tc_email = PStr [], revenue = 100\<rparr>,
           \<lparr>tc_id = PStr ''c2'', tc_name = PStr ''B'', tc_email = PStr [], revenue = 100\<rparr>,
           \<lparr>tc_id = PStr ''c3'', tc_name = PStr ''Client ?'', tc_email = PStr [],
              revenue = 100\<rparr>,
           \<lparr>tc_id = PStr ''c4'', tc_name = PStr ''Client ?'', tc_email = PStr [],
              revenue = 30\<rparr>,
           \<lparr>tc_id = PStr ''c5'', tc_name = PStr ''Client ?'', tc_email = PStr [],
              revenue = 20\<rparr>] \<le> 5"
proof -
  have s: "summarize example_env
     [PDict [(''total'', PInt 100), (''for'', PDict [(''id'', PStr ''c1'')])],
      PDict [(''total'', PInt 50), (''for'', PDict [(''id'', PStr ''c2'')])],
      PDict [(''total'', PInt 100), (''for'', PDict [(''id'', PStr ''c3'')])],
      PDict [(''total'', PInt 30), (''for'', PDict [(''id'', PStr ''c4'')])],
      PDict [(''total'', PInt 20), (''for'', PDict [(''id'', PStr ''c5'')])],
      PDict [(''total'', PInt 10), (''for'', PDict [(''id'', PStr ''c6'')])],
      PDict [(''total'', PInt 50), (''for'', PDict [(''id'', PStr ''c2'')])],
      PDict [(''total'', PInt 70), (''for'', PDict [(''id'', PStr ''zz'')])],
      PDict [(''total'', PInt (- 5)), (''for'', PDict [(''id'', PStr ''c7'')])]]
     [PDict [(''id'', PStr ''c1''), (''name'', PStr ''A'')],
      PDict [(''id'', PStr ''c2''), (''name'', PStr ''B'')],
      PDict [(''id'', PStr ''c3'')],
      PDict [(''id'', PStr ''c4'')],
      PDict [(''id'', PStr ''c5'')],
      PDict [(''id'', PStr ''c6'')],
      PDict [(''id'', PStr ''c7'')]]
   = Inr \<lparr>out_total_invoiced = 425, out_total_paid = 0,
        out_total_outstanding = 425, out_invoice_count = 9,
        out_client_count = 7,
        out_status_breakdown = [(''paid'', 0), (''partial'', 0), (''unpaid'', 9)],
        out_top_clients =
          [\<lparr>tc_id = PStr ''c1'', tc_name = PStr ''A'', tc_email = PStr [], revenue = 100\<rparr>,
           \<lparr>tc_id = PStr ''c2'', tc_name = PStr ''B'', tc_email = PStr [], revenue = 100\<rparr>,
           \<lparr>tc_id = PStr ''c3'', tc_name = PStr ''Client ?'', tc_email = PStr [],
              revenue = 100\<rparr>,
           \<lparr>tc_id = PStr ''c4'', tc_name = PStr ''Client ?'', tc_email = PStr [],
              revenue = 30\<rparr>,
           \<lparr>tc_id = PStr ''c5'', tc_name = PStr ''Client ?'', tc_email = PStr [],
              revenue = 20\<rparr>],
        out_monthly_data = [], out_average_invoice = 2361 / 50,
        out_collection_rate = 0\<rparr>"
    by code_simp
  note t = top_clients_ranked[THEN mp, OF s]
  from t have d: "sorted_wrt (\<lambda>a b. revenue b \<le> revenue a)
      (out_top_clients \<lparr>out_total_invoiced = 425, out_total_paid = 0,
        out_total_outstanding = 425, out_invoice_count = 9,
        out_client_count = 7,
        out_status_breakdown = [(''paid'', 0), (''partial'', 0), (''unpaid'', 9)],
        out_top_clients =
          [\<lparr>tc_id = PStr ''c1'', tc_name = PStr ''A'', tc_email = PStr [], revenue = 100\<rparr>,
           \<lparr>tc_id = PStr ''c2'', tc_name = PStr ''B'', tc_email = PStr [], revenue = 100\<rparr>,
           \<lparr>tc_id = PStr ''c3'', tc_name = PStr ''Client ?'', tc_email = PStr [],
              revenue = 100\<rparr>,
           \<lparr>tc_id = PStr ''c4'', tc_name = PStr ''Client ?'', tc_email = PStr [],
              revenue = 30\<rparr>,
           \<lparr>tc_id = PStr ''c5'', tc_name = PStr ''Client ?'', tc_email = PStr [],
              revenue = 20\<rparr>],
        out_monthly_data = [], out_average_invoice = 2361 / 50,
        out_collection_rate = 0\<rparr>)"
    by blast
  from t have l: "length (out_top_clients \<lparr>out_total_invoiced = 425, out_total_paid = 0,
        out_total_outstanding = 425, out_invoice_count = 9,
        out_client_count = 7,
        out_status_breakdown = [(''paid'', 0), (''partial'', 0), (''unpaid'', 9)],
        out_top_clients =
          [\<lparr>tc_id = PStr ''c1'', tc_name = PStr ''A'', tc_email = PStr [], revenue = 100\<rparr>,
           \<lparr>tc_id = PStr ''c2'', tc_name = PStr ''B'', tc_email = PStr [], revenue = 100\<rparr>,
           \<lparr>tc_id = PStr ''c3'', tc_name = PStr ''Client ?'', tc_email = PStr [],
              revenue = 100\<rparr>,
           \<lparr>tc_id = PStr ''c4'', tc_name = PStr ''Client ?'', tc_email = PStr [],
              revenue = 30\<rparr>,
           \<lparr>tc_id = PStr ''c5'', tc_name = PStr ''Client ?'', tc_email = PStr [],
              revenue = 20\<rparr>],
        out_monthly_data = [], out_average_invoice = 2361 / 50,
        out_collection_rate = 0\<rparr>) \<le> 5"
    by blast
  from s d l show ?thesis by simp
qed

end
